theory Spec2Isabelle
  imports Main
begin

section \<open>Files, script texts and the host\<close>

text \<open>
  The updater (\<^verbatim>\<open>src/updater.py\<close>) replaces a running executable in two stages.
  The Python functions \<^verbatim>\<open>apply_windows_update\<close> and \<^verbatim>\<open>apply_unix_update\<close> check
  their preconditions, render a script text with the process id and the paths spliced
  in, write it to the temporary directory and start it detached. The script then does
  the replacement after the caller has gone.

  A path is a string. A file holds either opaque bytes or one of the two script texts;
  a script text is determined by the values spliced into its template, so it is
  represented by those values. The meaning of each template is given in the sections
  on the batch and the shell script below.
\<close>

type_synonym path = string

datatype script =
    WinBat nat path path string path
  | UnixSh nat path path

datatype content = Bytes string | ScriptText script

type_synonym fs = "path \<Rightarrow> content option"

text \<open>
  The observable actions of the Python functions, in the order they happen:
  a user-facing message (by its message key), \<^verbatim>\<open>os.path.exists\<close>,
  \<^verbatim>\<open>os.path.getsize\<close>, writing a file, \<^verbatim>\<open>os.chmod\<close>, and \<^verbatim>\<open>subprocess.Popen\<close>
  with its argument vector. The \<^verbatim>\<open>[DEBUG]\<close> prints are left out.
\<close>

datatype op =
    Say string
  | Exists path
  | Getsize path
  | WriteFile path
  | ChmodExec path
  | Popen "string list"

text \<open>
  The host as the functions see it: \<^verbatim>\<open>sys.frozen\<close>, \<^verbatim>\<open>sys.executable\<close>,
  \<^verbatim>\<open>sys.platform\<close>, \<^verbatim>\<open>tempfile.gettempdir()\<close>, \<^verbatim>\<open>os.getpid()\<close>, the disk, which
  paths can be opened for writing, which programs can be started, the processes started
  so far and the actions so far.
\<close>

record host =
  frozen :: bool
  executable :: path
  platform :: string
  tmpdir :: path
  getpid :: nat
  disk :: fs
  writable :: "path \<Rightarrow> bool"
  startable :: "string \<Rightarrow> bool"
  started :: "string list list"
  oplog :: "op list"

definition act :: "op \<Rightarrow> host \<Rightarrow> host" where
  "act a h = h\<lparr>oplog := oplog h @ [a]\<rparr>"

subsection \<open>Path helpers of the standard library\<close>

text \<open>
  \<^verbatim>\<open>os.path.basename\<close>, \<^verbatim>\<open>os.path.dirname\<close> and \<^verbatim>\<open>os.path.join\<close> for a relative
  second component. On Windows both separators split a path; drive letters are not
  treated separately.
\<close>

definition win_seps :: "char set" where
  "win_seps = {CHR 0x5C, CHR ''/''}"

definition nt_basename :: "path \<Rightarrow> string" where
  "nt_basename p = rev (takeWhile (\<lambda>c. c \<notin> win_seps) (rev p))"

definition nt_dirname :: "path \<Rightarrow> path" where
  "nt_dirname p =
     (let hd_part = rev (dropWhile (\<lambda>c. c \<notin> win_seps) (rev p))
      in if list_all (\<lambda>c. c \<in> win_seps) hd_part then hd_part
         else rev (dropWhile (\<lambda>c. c \<in> win_seps) (rev hd_part)))"

definition nt_join :: "path \<Rightarrow> string \<Rightarrow> path" where
  "nt_join a b =
     (if a = [] \<or> last a \<in> win_seps \<or> last a = CHR '':'' then a @ b
      else a @ [CHR 0x5C] @ b)"

definition posix_join :: "path \<Rightarrow> string \<Rightarrow> path" where
  "posix_join a b = (if a = [] \<or> last a = CHR ''/'' then a @ b else a @ ''/'' @ b)"

section \<open>The Python entry points\<close>

text \<open>
  \<^verbatim>\<open>open(path, 'w')\<close> followed by \<^verbatim>\<open>f.write(text)\<close>: raises when the path cannot be
  opened for writing, otherwise the file holds the text. The boolean is \<open>False\<close> when
  the call raised; the host is the one the exception handler sees.
\<close>

definition write_text :: "path \<Rightarrow> script \<Rightarrow> host \<Rightarrow> bool \<times> host" where
  "write_text p s h =
     (if writable h p
      then (True, act (WriteFile p) (h\<lparr>disk := (disk h)(p \<mapsto> ScriptText s)\<rparr>))
      else (False, h))"

text \<open>
  \<^verbatim>\<open>subprocess.Popen(argv, ...)\<close>: raises when the program cannot be started,
  otherwise one more process runs.
\<close>

definition popen :: "string list \<Rightarrow> host \<Rightarrow> bool \<times> host" where
  "popen argv h =
     (case argv of
        [] \<Rightarrow> (False, h)
      | prog # _ \<Rightarrow>
          if startable h prog
          then (True, act (Popen argv) (h\<lparr>started := started h @ [argv]\<rparr>))
          else (False, h))"

definition win_script_name :: string where
  "win_script_name = ''fxdownloader_update.bat''"

definition unix_script_name :: string where
  "unix_script_name = ''fxdownloader_update.sh''"

text \<open>
  \<^verbatim>\<open>apply_windows_update(new_exe_path, current_exe_path=None)\<close>. The result is the
  returned boolean and the host afterwards. The body of the \<^verbatim>\<open>try\<close> block is
  \<open>win_write_and_start\<close>; an exception in it ends in the handler, which reports
  \<^verbatim>\<open>up_create_script_fail\<close> and returns \<^verbatim>\<open>False\<close>.
\<close>

definition win_write_and_start :: "script \<Rightarrow> host \<Rightarrow> bool \<times> host" where
  "win_write_and_start s h =
     (let bat_path = nt_join (tmpdir h) win_script_name;
          (written, h1) = write_text bat_path s h
      in if \<not> written then (False, h1)
         else
           let (running, h2) = popen [''cmd.exe'', ''/c'', bat_path] h1
           in if \<not> running then (False, h2)
              else (True, act (Say ''up_script_started'') h2))"

definition apply_windows_update :: "path \<Rightarrow> path option \<Rightarrow> host \<Rightarrow> bool \<times> host" where
  "apply_windows_update new_exe_path current_exe_path h =
     (if \<not> frozen h then (False, act (Say ''up_not_frozen'') h)
      else
        let cur = (case current_exe_path of None \<Rightarrow> executable h | Some c \<Rightarrow> c);
            h1 = act (Exists new_exe_path) h
        in if disk h1 new_exe_path = None
           then (False, act (Say ''up_new_missing'') h1)
           else
             let h2 = act (Getsize new_exe_path) h1;
                 pid = getpid h2;
                 exe_name = nt_basename cur;
                 exe_dir = nt_dirname cur;
                 bat_content = WinBat pid new_exe_path cur exe_name exe_dir;
                 (launched, h3) = win_write_and_start bat_content h2
             in if launched then (True, h3)
                else (False, act (Say ''up_create_script_fail'') h3))"

text \<open>
  The terminal emulators \<^verbatim>\<open>apply_unix_update\<close> tries on Linux, in order; the first one
  that starts is used (\<^verbatim>\<open>FileNotFoundError\<close> and \<^verbatim>\<open>OSError\<close> move on to the next).
\<close>

definition terminals :: "path \<Rightarrow> string list list" where
  "terminals script_path =
     [[''gnome-terminal'', ''--'', ''bash'', script_path],
      [''konsole'', ''-e'', ''bash'', script_path],
      [''xfce4-terminal'', ''-e'', ''bash '' @ script_path],
      [''xterm'', ''-e'', ''bash'', script_path],
      [''termux-open'', script_path]]"

fun try_terminals :: "string list list \<Rightarrow> host \<Rightarrow> bool \<times> host" where
  "try_terminals [] h = (False, h)"
| "try_terminals (term_cmd # rest) h =
     (let (launched, h') = popen term_cmd h
      in if launched then (True, h') else try_terminals rest h)"

definition unix_write_and_start :: "script \<Rightarrow> host \<Rightarrow> bool \<times> host" where
  "unix_write_and_start s h =
     (let script_path = posix_join (tmpdir h) unix_script_name;
          (written, h1) = write_text script_path s h
      in if \<not> written then (False, h1)
         else
           let h2 = act (ChmodExec script_path) h1;
               (running, h3) =
                 (if platform h2 = ''darwin''
                  then popen [''osascript'', ''-e'',
                         ''tell application '' @ [CHR 0x22] @ ''Terminal'' @ [CHR 0x22]
                           @ '' to do script '' @ [CHR 0x22] @ script_path @ [CHR 0x22]] h2
                  else
                    let (launched, h') = try_terminals (terminals script_path) h2
                    in if \<not> launched then popen [''bash'', script_path] h'
                       else (True, h'))
           in if \<not> running then (False, h3)
              else (True, act (Say ''up_script_started'') h3))"

definition apply_unix_update :: "path \<Rightarrow> path option \<Rightarrow> host \<Rightarrow> bool \<times> host" where
  "apply_unix_update new_binary_path current_binary_path h =
     (if \<not> frozen h then (False, act (Say ''up_not_frozen_linux'') h)
      else
        let cur = (case current_binary_path of None \<Rightarrow> executable h | Some c \<Rightarrow> c);
            h1 = act (Exists new_binary_path) h
        in if disk h1 new_binary_path = None
           then (False, act (Say ''up_new_missing_linux'') h1)
           else
             let pid = getpid h1;
                 shell_content = UnixSh pid new_binary_path cur;
                 (launched, h2) = unix_write_and_start shell_content h1
             in if launched then (True, h2)
                else (False, act (Say ''up_create_script_fail'') h2))"

definition apply_update :: "path \<Rightarrow> path option \<Rightarrow> host \<Rightarrow> bool \<times> host" where
  "apply_update new_file_path current_path h =
     (if platform h = ''win32'' then apply_windows_update new_file_path current_path h
      else if platform h \<in> {''linux'', ''darwin''}
        then apply_unix_update new_file_path current_path h
      else (False, act (Say ''up_platform_unsupported'') h))"

section \<open>The environment of a running script\<close>

text \<open>
  A script is a sequence of shell commands; what it does depends on how each command
  turns out. The outcomes the scripts cannot control are parameters of a run:
  \<^item> \<open>alive k\<close>: the \<open>k\<close>-th poll (from 0) still finds the origin process;
  \<^item> \<open>move_ok k\<close>: the \<open>k\<close>-th attempt (from 0) to rename the current executable
    succeeds (it fails while the file is locked);
  \<^item> \<open>backup_ok\<close>, \<open>install_ok\<close>, \<open>restore_ok\<close>: the copy that makes the backup (shell
    script), the copy that installs the new binary, and the command that puts the
    backup back succeed, provided their source file exists;
  \<^item> \<open>leftover p old\<close>: what a copy that fails part-way leaves at its destination
    \<open>p\<close>, which held \<open>old\<close> before;
  \<^item> \<open>deletable p\<close>: a delete command removes \<open>p\<close>;
  \<^item> \<open>image_seen\<close>: after the first launch, the process list shows the image name.
\<close>

record env =
  alive :: "nat \<Rightarrow> bool"
  move_ok :: "nat \<Rightarrow> bool"
  backup_ok :: bool
  install_ok :: bool
  restore_ok :: bool
  leftover :: "path \<Rightarrow> content option \<Rightarrow> content option"
  deletable :: "path \<Rightarrow> bool"
  image_seen :: bool

datatype launcher = Explorer | CmdStart | Nohup

text \<open>
  The commands a script runs, with their observed outcome where the script tests it.
  \<open>Sleep n\<close> is a pause of about \<open>n\<close> seconds: \<^verbatim>\<open>sleep n\<close> in the shell script and
  \<^verbatim>\<open>ping -n (n+1) 127.0.0.1\<close> in the batch script. \<open>Pause\<close> is \<^verbatim>\<open>pause\<close> or
  \<^verbatim>\<open>read -p\<close>. The \<^verbatim>\<open>echo\<close> lines are left out.
\<close>

datatype event =
    PollPid nat bool
  | Sleep nat
  | KillPid nat
  | KillImage string
  | Delete path
  | Move path path bool
  | Copy path path bool
  | ChmodX path
  | Chdir path
  | Pushd path
  | Popd
  | Launch launcher path
  | CheckImage string bool
  | Pause
  | Exit nat

text \<open>
  A run carries the file system and the history: every command run so far, each with
  the file system as it was right after the command.
\<close>

record run =
  files :: fs
  hist :: "(event \<times> fs) list"

definition start :: "fs \<Rightarrow> run" where
  "start f = \<lparr>files = f, hist = []\<rparr>"

definition events :: "run \<Rightarrow> event list" where
  "events r = map fst (hist r)"

definition emit :: "event \<Rightarrow> run \<Rightarrow> run" where
  "emit ev r = r\<lparr>hist := hist r @ [(ev, files r)]\<rparr>"

text \<open>\<^verbatim>\<open>del /F /Q p\<close> and \<^verbatim>\<open>rm -f p\<close>; the scripts ignore the outcome.\<close>

definition delete_cmd :: "env \<Rightarrow> path \<Rightarrow> run \<Rightarrow> run" where
  "delete_cmd e p r =
     emit (Delete p) (r\<lparr>files := (if deletable e p then (files r)(p := None) else files r)\<rparr>)"

text \<open>
  \<^verbatim>\<open>move /Y src dst\<close>: a rename, which replaces \<open>dst\<close>. It fails, changing nothing,
  when \<open>src\<close> does not exist or the environment refuses.
\<close>

definition move_cmd :: "bool \<Rightarrow> path \<Rightarrow> path \<Rightarrow> run \<Rightarrow> bool \<times> run" where
  "move_cmd allowed src dst r =
     (case files r src of
        None \<Rightarrow> (False, emit (Move src dst False) r)
      | Some c \<Rightarrow>
          if allowed
          then (True, emit (Move src dst True) (r\<lparr>files := ((files r)(src := None))(dst \<mapsto> c)\<rparr>))
          else (False, emit (Move src dst False) r))"

text \<open>
  \<^verbatim>\<open>copy /Y src dst\<close> and \<^verbatim>\<open>cp src dst\<close>. The command fails without touching
  \<open>dst\<close> when \<open>src\<close> does not exist or is \<open>dst\<close> itself; when the environment makes
  it fail, \<open>dst\<close> is left as \<open>leftover\<close> says.
\<close>

definition copy_cmd :: "env \<Rightarrow> bool \<Rightarrow> path \<Rightarrow> path \<Rightarrow> run \<Rightarrow> bool \<times> run" where
  "copy_cmd e allowed src dst r =
     (case files r src of
        None \<Rightarrow> (False, emit (Copy src dst False) r)
      | Some c \<Rightarrow>
          if src = dst then (False, emit (Copy src dst False) r)
          else if allowed
          then (True, emit (Copy src dst True) (r\<lparr>files := (files r)(dst \<mapsto> c)\<rparr>))
          else (False, emit (Copy src dst False)
                         (r\<lparr>files := (files r)(dst := leftover e dst (files r dst))\<rparr>)))"

section \<open>The batch script of \<^verbatim>\<open>apply_windows_update\<close>\<close>

text \<open>
  \<^verbatim>\<open>:waitloop\<close>. \<open>count\<close> is the script variable; the result says whether the loop
  left through \<^verbatim>\<open>goto :force_kill\<close>.
\<close>

function win_waitloop :: "env \<Rightarrow> nat \<Rightarrow> nat \<Rightarrow> run \<Rightarrow> bool \<times> run" where
  "win_waitloop e pid count r =
     (if \<not> alive e count then (False, emit (PollPid pid False) r)
      else
        let r1 = emit (PollPid pid True) r;
            count' = count + 1
        in if count' \<ge> 30 then (True, r1)
           else win_waitloop e pid count' (emit (Sleep 1) r1))"
  by pat_completeness auto
termination
  by (relation "measure (\<lambda>(e, pid, count, r). 30 - count)") auto

declare win_waitloop.simps [simp del]

text \<open>
  \<^verbatim>\<open>:move_retry\<close>. \<open>retry\<close> is the script variable. The result is \<open>False\<close> when the
  script has ended through \<^verbatim>\<open>exit /b 1\<close>.
\<close>

function win_move_retry :: "env \<Rightarrow> path \<Rightarrow> string \<Rightarrow> nat \<Rightarrow> run \<Rightarrow> bool \<times> run" where
  "win_move_retry e cur exe_name retry r =
     (let r1 = delete_cmd e (cur @ ''.old'') r
      in if files r1 cur \<noteq> None
         then
           let (moved, r2) = move_cmd (move_ok e retry) cur (cur @ ''.old'') r1
           in if \<not> moved
              then
                let retry' = retry + 1
                in if retry' < 5
                   then win_move_retry e cur exe_name retry'
                          (emit (Sleep 2) (emit (KillImage exe_name) r2))
                   else (False, emit (Exit 1) (emit Pause r2))
              else (True, r2)
         else (True, r1))"
  by pat_completeness auto
termination
  by (relation "measure (\<lambda>(e, cur, exe_name, retry, r). 5 - retry)") auto

declare win_move_retry.simps [simp del]

text \<open>The script from \<^verbatim>\<open>copy /Y\<close> on: install, roll back or clean up, restart, self-delete.\<close>

definition win_restart :: "env \<Rightarrow> path \<Rightarrow> string \<Rightarrow> path \<Rightarrow> path \<Rightarrow> run \<Rightarrow> run" where
  "win_restart e cur exe_name exe_dir self r =
     (let r1 = emit (Chdir exe_dir) r
      in if files r1 cur = None then emit (Exit 1) (emit Pause r1)
         else
           let r2 = emit (Pushd exe_dir) r1;
               r3 = emit (Launch Explorer cur) r2;
               r4 = emit (Sleep 3) r3;
               r5 = emit (CheckImage exe_name (image_seen e)) r4;
               r6 = (if \<not> image_seen e
                     then emit (Sleep 2) (emit (Launch CmdStart cur) r5)
                     else r5);
               r7 = emit Popd r6;
               r8 = emit (Sleep 5) r7;
               r9 = delete_cmd e self r8
           in emit (Exit 0) r9)"

definition win_install :: "env \<Rightarrow> path \<Rightarrow> path \<Rightarrow> string \<Rightarrow> path \<Rightarrow> path \<Rightarrow> run \<Rightarrow> run" where
  "win_install e new cur exe_name exe_dir self r =
     (let (copied, r1) = copy_cmd e (install_ok e) new cur r
      in if \<not> copied
         then
           let r2 = (if files r1 (cur @ ''.old'') \<noteq> None
                     then snd (move_cmd (restore_ok e) (cur @ ''.old'') cur r1)
                     else r1)
           in emit (Exit 1) (emit Pause r2)
         else
           let r2 = delete_cmd e new r1;
               r3 = delete_cmd e (cur @ ''.old'') r2;
               r4 = emit (Sleep 3) r3
           in win_restart e cur exe_name exe_dir self r4)"

text \<open>
  The whole batch script, run as the file \<open>self\<close> (\<^verbatim>\<open>%~f0\<close>) on the file system
  \<open>f\<close>.
\<close>

definition win_script ::
  "env \<Rightarrow> nat \<Rightarrow> path \<Rightarrow> path \<Rightarrow> string \<Rightarrow> path \<Rightarrow> path \<Rightarrow> fs \<Rightarrow> run" where
  "win_script e pid new cur exe_name exe_dir self f =
     (let (timed_out, r1) = win_waitloop e pid 0 (start f);
          r2 = (if timed_out then emit (Sleep 1) (emit (KillPid pid) r1) else r1);
          r3 = emit (KillImage exe_name) r2;
          r4 = emit (Sleep 2) r3;
          (backed_up, r5) = win_move_retry e cur exe_name 0 r4
      in if \<not> backed_up then r5
         else win_install e new cur exe_name exe_dir self r5)"

section \<open>The shell script of \<^verbatim>\<open>apply_unix_update\<close>\<close>

text \<open>
  \<^verbatim>\<open>while kill -0 pid; do sleep 1; done\<close>. \<open>k\<close> counts the polls. The loop has no
  bound, so the result is \<open>None\<close> when it never ends.
\<close>

partial_function (option) unix_wait :: "env \<Rightarrow> nat \<Rightarrow> nat \<Rightarrow> run \<Rightarrow> run option" where
  "unix_wait e pid k r =
     (if alive e k
      then unix_wait e pid (k + 1) (emit (Sleep 1) (emit (PollPid pid True) r))
      else Some (emit (PollPid pid False) r))"

definition unix_install :: "env \<Rightarrow> path \<Rightarrow> path \<Rightarrow> path \<Rightarrow> run \<Rightarrow> run" where
  "unix_install e new cur self r =
     (let backup_path = cur @ ''.backup'';
          (copied, r1) = copy_cmd e (install_ok e) new cur r
      in if \<not> copied
         then
           let r2 = snd (copy_cmd e (restore_ok e) backup_path cur r1)
           in emit (Exit 1) (emit Pause r2)
         else
           let r2 = emit (ChmodX cur) r1;
               r3 = delete_cmd e new r2;
               r4 = delete_cmd e backup_path r3;
               r5 = emit (Sleep 2) r4;
               r6 = emit (Launch Nohup cur) r5;
               r7 = delete_cmd e self r6
           in emit (Exit 0) r7)"

definition unix_body :: "env \<Rightarrow> path \<Rightarrow> path \<Rightarrow> path \<Rightarrow> run \<Rightarrow> run" where
  "unix_body e new cur self r =
     (let backup_path = cur @ ''.backup''
      in if files r cur \<noteq> None
         then
           let (saved, r1) = copy_cmd e (backup_ok e) cur backup_path r
           in if \<not> saved then emit (Exit 1) (emit Pause r1)
              else unix_install e new cur self r1
         else unix_install e new cur self r)"

definition unix_script :: "env \<Rightarrow> nat \<Rightarrow> path \<Rightarrow> path \<Rightarrow> path \<Rightarrow> fs \<Rightarrow> run option" where
  "unix_script e pid new cur self f =
     (case unix_wait e pid 0 (start f) of
        None \<Rightarrow> None
      | Some r \<Rightarrow> Some (unix_body e new cur self r))"

section \<open>Running a script file\<close>

text \<open>
  What running the script text \<open>s\<close> stored at \<open>self\<close> does; \<open>None\<close> when the script
  never ends.
\<close>

fun run_script :: "env \<Rightarrow> path \<Rightarrow> script \<Rightarrow> fs \<Rightarrow> run option" where
  "run_script e self (WinBat pid new cur exe_name exe_dir) f =
     Some (win_script e pid new cur exe_name exe_dir self f)"
| "run_script e self (UnixSh pid new cur) f = unix_script e pid new cur self f"

fun current_path :: "script \<Rightarrow> path" where
  "current_path (WinBat pid new cur exe_name exe_dir) = cur"
| "current_path (UnixSh pid new cur) = cur"

fun new_path :: "script \<Rightarrow> path" where
  "new_path (WinBat pid new cur exe_name exe_dir) = new"
| "new_path (UnixSh pid new cur) = new"

fun backup_path :: "script \<Rightarrow> path" where
  "backup_path (WinBat pid new cur exe_name exe_dir) = cur @ ''.old''"
| "backup_path (UnixSh pid new cur) = cur @ ''.backup''"

fun origin_pid :: "script \<Rightarrow> nat" where
  "origin_pid (WinBat pid new cur exe_name exe_dir) = pid"
| "origin_pid (UnixSh pid new cur) = pid"

section \<open>Notions used to state the properties\<close>

text \<open>Running a list of commands that leave the file system alone.\<close>

definition emits :: "event list \<Rightarrow> run \<Rightarrow> run" where
  "emits evs r = r\<lparr>hist := hist r @ map (\<lambda>ev. (ev, files r)) evs\<rparr>"

text \<open>\<open>n\<close> rounds of the wait loops in which the origin process is still found.\<close>

fun polls :: "nat \<Rightarrow> nat \<Rightarrow> event list" where
  "polls pid 0 = []"
| "polls pid (Suc n) = PollPid pid True # Sleep 1 # polls pid n"

text \<open>A packaged Linux host with the running tool on disk and nothing else.\<close>

definition host0 :: host where
  "host0 = \<lparr>frozen = True, executable = ''/app/tool'', platform = ''linux'', tmpdir = ''/tmp'',
            getpid = 4242, disk = [''/app/tool'' \<mapsto> Bytes ''old''], writable = (\<lambda>_. True),
            startable = (\<lambda>_. True), started = [], oplog = []\<rparr>"

section \<open>Logging an action changes nothing else\<close>

lemma act_fields [simp]:
  "frozen (act a h) = frozen h" "executable (act a h) = executable h"
  "platform (act a h) = platform h" "tmpdir (act a h) = tmpdir h"
  "getpid (act a h) = getpid h" "disk (act a h) = disk h"
  "writable (act a h) = writable h" "startable (act a h) = startable h"
  "started (act a h) = started h" "oplog (act a h) = oplog h @ [a]"
  by (simp_all add: act_def)

section \<open>The entry points only add to the action log\<close>

lemma popen_oplog: "\<exists>rest. oplog (snd (popen argv h)) = oplog h @ rest"
  by (cases argv) (simp_all add: popen_def act_def)

lemma write_text_oplog: "\<exists>rest. oplog (snd (write_text p s h)) = oplog h @ rest"
  by (simp add: write_text_def act_def)

lemma try_terminals_oplog: "\<exists>rest. oplog (snd (try_terminals ts h)) = oplog h @ rest"
proof (induction ts)
  case Nil
  show ?case by simp
next
  case (Cons t ts)
  obtain b h' where p: "popen t h = (b, h')" by (cases "popen t h")
  obtain rest where "oplog h' = oplog h @ rest" using popen_oplog [of t h] p by auto
  then show ?case using Cons p by (cases b) auto
qed

lemma unix_write_and_start_oplog:
  "\<exists>rest. oplog (snd (unix_write_and_start s h)) = oplog h @ rest"
proof -
  define sp where "sp = posix_join (tmpdir h) unix_script_name"
  obtain w h1 where w: "write_text sp s h = (w, h1)" by (cases "write_text sp s h")
  obtain r1 where r1: "oplog h1 = oplog h @ r1" using write_text_oplog [of sp s h] w by auto
  define h2 where "h2 = act (ChmodExec sp) h1"
  have r2: "oplog h2 = oplog h @ r1 @ [ChmodExec sp]" by (simp add: h2_def act_def r1)
  define launch where "launch =
     (if platform h2 = ''darwin''
      then popen [''osascript'', ''-e'',
             ''tell application '' @ [CHR 0x22] @ ''Terminal'' @ [CHR 0x22]
               @ '' to do script '' @ [CHR 0x22] @ sp @ [CHR 0x22]] h2
      else
        let (launched, h') = try_terminals (terminals sp) h2
        in if \<not> launched then popen [''bash'', sp] h'
           else (True, h'))"
  have l: "\<exists>rest. oplog (snd launch) = oplog h2 @ rest"
  proof (cases "platform h2 = ''darwin''")
    case True
    then show ?thesis using popen_oplog by (simp add: launch_def)
  next
    case False
    obtain b h' where t: "try_terminals (terminals sp) h2 = (b, h')"
      by (cases "try_terminals (terminals sp) h2")
    obtain r3 where r3: "oplog h' = oplog h2 @ r3"
      using try_terminals_oplog [of "terminals sp" h2] t by auto
    obtain r4 where r4: "oplog (snd (popen [''bash'', sp] h')) = oplog h' @ r4"
      using popen_oplog by blast
    show ?thesis using False t r3 r4 by (cases b) (simp_all add: launch_def)
  qed
  then obtain r5 where r5: "oplog (snd launch) = oplog h2 @ r5" by blast
  obtain b3 h3 where l3: "launch = (b3, h3)" by (cases launch)
  have "unix_write_and_start s h =
          (if \<not> w then (False, h1)
           else if \<not> b3 then (False, h3) else (True, act (Say ''up_script_started'') h3))"
    using w l3
    by (simp add: unix_write_and_start_def sp_def [symmetric] Let_def h2_def [symmetric]
          launch_def [symmetric])
  then show ?thesis using r1 r2 r5 l3 by (auto simp add: act_def)
qed

lemma win_write_and_start_oplog:
  "\<exists>rest. oplog (snd (win_write_and_start s h)) = oplog h @ rest"
  by (simp add: win_write_and_start_def write_text_def popen_def act_def Let_def)

section \<open>Basic facts about runs\<close>

lemma files_emit [simp]: "files (emit ev r) = files r"
  by (simp add: emit_def)

lemma hist_emit [simp]: "hist (emit ev r) = hist r @ [(ev, files r)]"
  by (simp add: emit_def)

lemma events_emit [simp]: "events (emit ev r) = events r @ [ev]"
  by (simp add: events_def)

lemma emits_Nil [simp]: "emits [] r = r"
  by (simp add: emits_def)

lemma emits_emit: "emits evs (emit ev r) = emits (ev # evs) r"
  by (simp add: emits_def emit_def)

lemma emits_emits [simp]: "emits evs (emits evs' r) = emits (evs' @ evs) r"
  by (simp add: emits_def)

lemma files_emits [simp]: "files (emits evs r) = files r"
  by (simp add: emits_def)

lemma events_emits [simp]: "events (emits evs r) = events r @ evs"
  by (simp add: emits_def events_def comp_def)

lemma hist_emits [simp]: "hist (emits evs r) = hist r @ map (\<lambda>ev. (ev, files r)) evs"
  by (simp add: emits_def)

section \<open>The wait loop of the batch script\<close>

lemma win_wait_exit:
  "c + n < 30 \<Longrightarrow> (\<forall>k<n. alive e (c + k)) \<Longrightarrow> \<not> alive e (c + n) \<Longrightarrow>
   win_waitloop e pid c r = (False, emits (polls pid n @ [PollPid pid False]) r)"
proof (induction n arbitrary: c r)
  case 0
  then show ?case by (subst win_waitloop.simps) (simp add: emits_def emit_def)
next
  case (Suc n)
  have a: "alive e c" using Suc.prems(2) by (metis add.right_neutral zero_less_Suc)
  have "win_waitloop e pid (Suc c) (emit (Sleep 1) (emit (PollPid pid True) r))
      = (False, emits (polls pid n @ [PollPid pid False]) (emit (Sleep 1) (emit (PollPid pid True) r)))"
  proof (rule Suc.IH)
    show "Suc c + n < 30" using Suc.prems(1) by simp
    show "\<forall>k<n. alive e (Suc c + k)" using Suc.prems(2) by (metis Suc_less_eq add_Suc_shift)
    show "\<not> alive e (Suc c + n)" using Suc.prems(3) by simp
  qed
  moreover have "c + 1 < 30" using Suc.prems(1) by simp
  ultimately show ?case using a
    by (subst win_waitloop.simps) (simp add: Let_def emits_emit)
qed

lemma win_wait_timeout:
  "c + n = 29 \<Longrightarrow> (\<forall>k\<le>n. alive e (c + k)) \<Longrightarrow>
   win_waitloop e pid c r = (True, emits (polls pid n @ [PollPid pid True]) r)"
proof (induction n arbitrary: c r)
  case 0
  then show ?case by (subst win_waitloop.simps) (simp add: emits_def emit_def)
next
  case (Suc n)
  have a: "alive e c" using Suc.prems(2) by (metis add.right_neutral le0)
  have "win_waitloop e pid (Suc c) (emit (Sleep 1) (emit (PollPid pid True) r))
      = (True, emits (polls pid n @ [PollPid pid True]) (emit (Sleep 1) (emit (PollPid pid True) r)))"
  proof (rule Suc.IH)
    show "Suc c + n = 29" using Suc.prems(1) by simp
    show "\<forall>k\<le>n. alive e (Suc c + k)" using Suc.prems(2) by (metis Suc_le_mono add_Suc_shift)
  qed
  moreover have "c + 1 < 30" using Suc.prems(1) by simp
  ultimately show ?case using a
    by (subst win_waitloop.simps) (simp add: Let_def emits_emit)
qed

lemma win_wait_frame:
  "\<exists>evs. snd (win_waitloop e pid c r) = emits evs r"
proof (induction e pid c r rule: win_waitloop.induct)
  case (1 e pid count r)
  show ?case
  proof (cases "alive e count \<and> \<not> 30 \<le> count + 1")
    case True
    then obtain evs where "snd (win_waitloop e pid (count + 1) (emit (Sleep 1) (emit (PollPid pid True) r)))
       = emits evs (emit (Sleep 1) (emit (PollPid pid True) r))"
      using 1 by blast
    then show ?thesis using True
      by (subst win_waitloop.simps) (auto simp add: Let_def emits_emit)
  next
    case False
    then show ?thesis
      by (subst win_waitloop.simps) (auto simp add: Let_def emits_def emit_def intro: exI[of _ "[_]"])
  qed
qed

section \<open>Preconditions of the entry points\<close>

text \<open>
  C6. In a packaged build, when \<open>new\<close> does not exist on disk, both
  \<^verbatim>\<open>apply_windows_update\<close> and \<^verbatim>\<open>apply_unix_update\<close> return \<open>False\<close>; all they do is
  test the path and report the missing file, so the disk and the list of started
  processes are as before: no script is written and nothing is launched. In every call
  from a packaged build the existence test is the first action.
\<close>

theorem apply_missing_artifact:
  assumes "frozen h"
  shows "(disk h new = None \<longrightarrow>
            apply_windows_update new cur h =
              (False, h\<lparr>oplog := oplog h @ [Exists new, Say ''up_new_missing'']\<rparr>)
          \<and> apply_unix_update new cur h =
              (False, h\<lparr>oplog := oplog h @ [Exists new, Say ''up_new_missing_linux'']\<rparr>))
       \<and> (\<exists>rest. oplog (snd (apply_windows_update new cur h)) = oplog h @ Exists new # rest)
       \<and> (\<exists>rest. oplog (snd (apply_unix_update new cur h)) = oplog h @ Exists new # rest)"
proof -
  have a: "disk h new = None \<longrightarrow>
            apply_windows_update new cur h =
              (False, h\<lparr>oplog := oplog h @ [Exists new, Say ''up_new_missing'']\<rparr>)
          \<and> apply_unix_update new cur h =
              (False, h\<lparr>oplog := oplog h @ [Exists new, Say ''up_new_missing_linux'']\<rparr>)"
    using assms by (simp add: apply_windows_update_def apply_unix_update_def act_def Let_def)
  have b: "\<exists>rest. oplog (snd (apply_windows_update new cur h)) = oplog h @ Exists new # rest"
    using assms
    by (simp add: apply_windows_update_def win_write_and_start_def write_text_def popen_def
          Let_def split: prod.splits)
  have c: "\<exists>rest. oplog (snd (apply_unix_update new cur h)) = oplog h @ Exists new # rest"
  proof -
    define s where "s = UnixSh (getpid h) new (case cur of None \<Rightarrow> executable h | Some c \<Rightarrow> c)"
    obtain ok h2 where w: "unix_write_and_start s (act (Exists new) h) = (ok, h2)"
      by (cases "unix_write_and_start s (act (Exists new) h)")
    obtain rest where "oplog h2 = oplog (act (Exists new) h) @ rest"
      using unix_write_and_start_oplog [of s "act (Exists new) h"] w by auto
    then have o2: "oplog h2 = oplog h @ Exists new # rest"
      by simp
    have "apply_unix_update new cur h =
            (if disk h new = None then (False, act (Say ''up_new_missing_linux'') (act (Exists new) h))
             else if ok then (True, h2) else (False, act (Say ''up_create_script_fail'') h2))"
      using assms w
      by (simp add: apply_unix_update_def Let_def s_def [symmetric])
    then show ?thesis using o2 by simp
  qed
  show ?thesis using a b c by blast
qed

theorem apply_missing_artifact_witness:
  "frozen host0 \<and> disk host0 ''/tmp/tool.new'' = None
   \<and> apply_windows_update ''/tmp/tool.new'' None host0 =
       (False, host0\<lparr>oplog := [Exists ''/tmp/tool.new'', Say ''up_new_missing'']\<rparr>)
   \<and> apply_unix_update ''/tmp/tool.new'' None host0 =
       (False, host0\<lparr>oplog := [Exists ''/tmp/tool.new'', Say ''up_new_missing_linux'']\<rparr>)"
  using apply_missing_artifact [of host0 "''/tmp/tool.new''" None]
  by (simp add: host0_def)

text \<open>
  C9. When the process is not a packaged build, both functions return \<open>False\<close> and the
  only thing they do is report that the build is not packaged: the message is the
  not-packaged one whether or not \<open>new\<close> exists, and no existence test is made.
\<close>

theorem apply_not_frozen:
  assumes "\<not> frozen h"
  shows "apply_windows_update new cur h = (False, h\<lparr>oplog := oplog h @ [Say ''up_not_frozen'']\<rparr>)
       \<and> apply_unix_update new cur h = (False, h\<lparr>oplog := oplog h @ [Say ''up_not_frozen_linux'']\<rparr>)"
  using assms by (simp add: apply_windows_update_def apply_unix_update_def act_def)

theorem apply_not_frozen_witness:
  "\<not> frozen (host0\<lparr>frozen := False\<rparr>) \<and> disk (host0\<lparr>frozen := False\<rparr>) ''/tmp/tool.new'' = None
   \<and> apply_windows_update ''/tmp/tool.new'' None (host0\<lparr>frozen := False\<rparr>) =
       (False, host0\<lparr>frozen := False, oplog := [Say ''up_not_frozen'']\<rparr>)
   \<and> apply_unix_update ''/tmp/tool.new'' None (host0\<lparr>frozen := False\<rparr>) =
       (False, host0\<lparr>frozen := False, oplog := [Say ''up_not_frozen_linux'']\<rparr>)"
  using apply_not_frozen [of "host0\<lparr>frozen := False\<rparr>" "''/tmp/tool.new''" None]
  by (simp add: host0_def)

end
